theory Spec2Isabelle
  imports Complex_Main "HOL-Library.Word"
begin

section \<open>Data model (frontend/types)\<close>

subsection \<open>Jobs (types/analysis.ts)\<close>

text \<open>
  \<^verbatim>\<open>
  export type JobStatus = "queued" | "running" | "complete" | "failed";
  export type ProgressStep = "resolving_company" | "discovering_subreddits"
    | "fetching_sources" | "llm_extraction" | "persisting";
  \<close>
  The declared types, and the string each member is at run time.
\<close>

datatype JobStatus = Queued | Running | Complete | Failed

datatype ProgressStep =
    Resolving_company
  | Discovering_subreddits
  | Fetching_sources
  | Llm_extraction
  | Persisting



text \<open>
  The body of \<open>POST /api/analyze\<close>. The key \<open>competitors\<close> is \<open>None\<close> when the object
  has no such key.
\<close>

record AnalyzeRequest =
  domain :: string
  competitors :: "string list option"

text \<open>The fixed progress sequence of the orchestrator, in order.\<close>

definition progress_sequence :: "ProgressStep list" where
  "progress_sequence =
     [Resolving_company, Discovering_subreddits, Fetching_sources, Llm_extraction, Persisting]"

subsection \<open>JavaScript values\<close>

text \<open>
  The type parameters of the API client are erased at run time: \<open>response.json()\<close>
  gives whatever value the body denotes, and the hook reads its properties unchecked. So
  everything that comes from a response is a JavaScript value: \<open>undefined\<close>, or a JSON
  value. A number is given by its rendering as a string (the runtime's
  \<open>Number.prototype.toString\<close>); it is zero exactly when that rendering is \<open>0\<close>. An
  object is given by its own properties, each key once.
\<close>

datatype js_value =
    JUndefined
  | JNull
  | JBool bool
  | JNum string
  | JStr string
  | JArr "js_value list"
  | JObj "(string \<times> js_value) list"

subsection \<open>HTTP requests and responses (the runtime's \<open>fetch\<close>)\<close>

text \<open>
  What \<open>fetch\<close> is called with. The body is kept as the value given to
  \<open>JSON.stringify\<close>; only the analyze request has one.
\<close>

record request =
  http_method :: string
  url :: string
  headers :: "(string \<times> string) list"
  body :: "AnalyzeRequest option"

text \<open>
  A \<open>Response\<close>: \<open>json\<close> is the value that \<open>response.json()\<close> resolves to, and \<open>None\<close>
  when it rejects (the body is absent or is not JSON).
\<close>

record response =
  ok :: bool
  http_status :: nat
  statusText :: string
  json :: "js_value option"

text \<open>\<open>fetch\<close> either rejects (the request never got a response) or resolves to a response.\<close>

datatype fetched = Failed_to_fetch | Response response

subsection \<open>The state of the job hook and of the browser around it\<close>

text \<open>
  The React state of \<open>useAnalysisJob\<close>. Its values are typed in the source, but they are
  set from responses unchecked, so they are JavaScript values here. \<open>pollRef\<close> holds the
  interval timer, or \<open>None\<close> when no timer is registered: the time at which the timer
  fires next, and the job id its callback \<open>() => poll(response.job_id)\<close> has captured.
\<close>

record hook =
  jobId :: js_value
  status :: js_value
  progress :: js_value
  error :: js_value
  result :: js_value
  isLoading :: bool
  pollRef :: "(nat \<times> js_value) option"

text \<open>
  The hook in its environment: the configured base URL (\<open>lib/env\<close>), a clock in
  milliseconds, the log of every request handed to \<open>fetch\<close> with the time it was issued,
  and the number of status reads that were issued and have not settled yet.
\<close>

record world =
  job :: hook
  API_BASE_URL :: string
  clock :: nat
  sent :: "(nat \<times> request) list"
  reads_in_flight :: nat

text \<open>
  What happens to the page without the user: time passes, or a status read in flight
  settles with the outcome of its \<open>fetch\<close>. Reads need not settle in the order in which
  they were issued.
\<close>

datatype event = Elapse nat | Settle fetched

subsection \<open>Competitive overview (types/competitive.ts) and mentions (types/entities)\<close>

text \<open>
  \<^verbatim>\<open>
  export interface SubredditShare {
    subreddit: string; total: number;
    counts: Record<string, number>; share: Record<string, number>;
  }
  export interface CoMentionsSummary { pair: [string, string]; count: number; }
  \<close>
  Counts are numbers of mentions, so they are natural numbers; a share is a fraction.
\<close>

record SubredditShare =
  subreddit :: string
  total :: nat
  counts :: "string \<rightharpoonup> nat"
  share :: "string \<rightharpoonup> real"

record CoMentionsSummary =
  pair :: "string \<times> string"
  count :: nat

text \<open>
  The raw mention of the data model: \<open>{surface_form, snippet, source_id, llm_confidence}\<close>.
\<close>

record Mention =
  surface_form :: string
  snippet :: "string option"
  source_id :: string
  llm_confidence :: real

section \<open>Formatting helpers (frontend/lib/format.ts)\<close>

text \<open>
  A JavaScript string is a sequence of UTF-16 code units and \<open>length\<close> counts code
  units, so strings whose length matters are lists of 16-bit words. The \<open>maxLen\<close>
  argument is a JavaScript number; the callers pass integer literals, so it is an \<open>int\<close>.
\<close>

type_synonym code_unit = "16 word"
type_synonym js_string = "code_unit list"

text \<open>
  \<open>String.prototype.slice(start, end)\<close>: a negative index counts from the end of the
  string, both indices are clamped to the string, and an empty range gives the empty string.
\<close>

definition js_slice :: "js_string \<Rightarrow> int \<Rightarrow> int \<Rightarrow> js_string" where
  "js_slice str start fin =
     (let len = int (length str);
          from = (if start < 0 then max (len + start) 0 else min start len);
          to = (if fin < 0 then max (len + fin) 0 else min fin len)
      in take (nat (to - from)) (drop (nat from) str))"

text \<open>The literal \<open>"..."\<close>: three full stops (U+002E).\<close>

definition ellipsis :: js_string where
  "ellipsis = [0x2E, 0x2E, 0x2E]"

text \<open>
  \<^verbatim>\<open>
  export function truncate(str: string, maxLen: number): string {
    if (str.length <= maxLen) return str;
    return str.slice(0, maxLen - 3) + "...";
  }
  \<close>
\<close>

definition truncate :: "js_string \<Rightarrow> int \<Rightarrow> js_string" where
  "truncate str maxLen =
     (if int (length str) \<le> maxLen then str
      else js_slice str 0 (maxLen - 3) @ ellipsis)"

text \<open>
  The two call sites: a mention's snippet is rendered with \<open>truncate(mention.snippet, 200)\<close>
  (features/entities/EntityDetail.tsx) and a relationship's evidence with
  \<open>truncate(rel.evidence, 150)\<close> (the relationship list).
\<close>

definition rendered_snippet :: "js_string \<Rightarrow> js_string" where
  "rendered_snippet str = truncate str 200"

definition rendered_evidence :: "js_string \<Rightarrow> js_string" where
  "rendered_evidence str = truncate str 150"

section \<open>The progress bar (JobStatus component)\<close>

text \<open>
  \<^verbatim>\<open>
  const progressPercent: Record<ProgressStep, number> = {
    resolving_company: 10, discovering_subreddits: 25, fetching_sources: 50,
    llm_extraction: 75, persisting: 95 };
  const percent = progress ? progressPercent[progress] : status === "complete" ? 100 : 0;
  \<close>
  The component returns early when \<open>status\<close> is null, so \<open>percent\<close> is computed for a
  non-null status only.
\<close>

fun progressPercent :: "ProgressStep \<Rightarrow> nat" where
  "progressPercent Resolving_company = 10"
| "progressPercent Discovering_subreddits = 25"
| "progressPercent Fetching_sources = 50"
| "progressPercent Llm_extraction = 75"
| "progressPercent Persisting = 95"

definition percent :: "JobStatus \<Rightarrow> ProgressStep option \<Rightarrow> nat" where
  "percent st prog =
     (case prog of
        Some p \<Rightarrow> progressPercent p
      | None \<Rightarrow> if st = Complete then 100 else 0)"

text \<open>
  The place of an observed pair of status and progress in a job's life: no step reported yet,
  then the five steps in their fixed order, then completion.
\<close>

fun step_index :: "ProgressStep \<Rightarrow> nat" where
  "step_index Resolving_company = 1"
| "step_index Discovering_subreddits = 2"
| "step_index Fetching_sources = 3"
| "step_index Llm_extraction = 4"
| "step_index Persisting = 5"

fun stage :: "JobStatus \<times> ProgressStep option \<Rightarrow> nat" where
  "stage (st, Some p) = step_index p"
| "stage (st, None) = (if st = Complete then 6 else 0)"

definition follows_sequence :: "(JobStatus \<times> ProgressStep option) list \<Rightarrow> bool" where
  "follows_sequence obs = sorted (map stage obs)"

definition displayed :: "(JobStatus \<times> ProgressStep option) list \<Rightarrow> nat list" where
  "displayed obs = map (\<lambda>(st, prog). percent st prog) obs"

section \<open>The API client (frontend/services/apiClient.ts)\<close>

subsection \<open>The language's operations on values\<close>

text \<open>Truthiness: \<open>undefined\<close>, \<open>null\<close>, \<open>false\<close>, zero and the empty string are falsy.\<close>

fun truthy :: "js_value \<Rightarrow> bool" where
  "truthy JUndefined = False"
| "truthy JNull = False"
| "truthy (JBool b) = b"
| "truthy (JNum n) = (n \<noteq> ''0'')"
| "truthy (JStr s) = (s \<noteq> [])"
| "truthy (JArr xs) = True"
| "truthy (JObj kvs) = True"

text \<open>\<open>a || b\<close>.\<close>

definition js_or :: "js_value \<Rightarrow> js_value \<Rightarrow> js_value" where
  "js_or a b = (if truthy a then a else b)"

text \<open>
  \<open>v.k\<close> for the property names the client reads (\<open>detail\<close>, \<open>message\<close>, \<open>job_id\<close>,
  \<open>status\<close>, \<open>progress\<close>, \<open>error\<close>, \<open>result\<close>), none of which is inherited from a
  prototype: reading a property of \<open>undefined\<close> or \<open>null\<close> throws a \<open>TypeError\<close>
  (\<open>None\<close>), an object gives its own property or \<open>undefined\<close>, and any other value gives
  \<open>undefined\<close>.
\<close>

fun get_prop :: "js_value \<Rightarrow> string \<Rightarrow> js_value option" where
  "get_prop JUndefined k = None"
| "get_prop JNull k = None"
| "get_prop (JObj kvs) k = Some (case map_of kvs k of Some v \<Rightarrow> v | None \<Rightarrow> JUndefined)"
| "get_prop v k = Some JUndefined"

text \<open>The strings of a list joined by commas, unless one of them is missing.\<close>

fun join_all :: "string option list \<Rightarrow> string option" where
  "join_all [] = Some []"
| "join_all [x] = x"
| "join_all (x # y # ys) =
     (case x of
        None \<Rightarrow> None
      | Some s \<Rightarrow> (case join_all (y # ys) of None \<Rightarrow> None | Some t \<Rightarrow> Some (s @ '','' @ t)))"

text \<open>
  The conversion to a string that a template literal and the \<open>Error\<close> constructor apply
  (\<open>ToString\<close>). An array joins its elements with commas, \<open>null\<close> and \<open>undefined\<close>
  elements giving the empty string. An object gives \<open>[object Object]\<close> through the
  inherited \<open>toString\<close>; an own property \<open>toString\<close> of a parsed object is never a
  function, and then the conversion throws a \<open>TypeError\<close> (\<open>None\<close>).
\<close>

fun to_string :: "js_value \<Rightarrow> string option" where
  "to_string JUndefined = Some ''undefined''"
| "to_string JNull = Some ''null''"
| "to_string (JBool b) = Some (if b then ''true'' else ''false'')"
| "to_string (JNum n) = Some n"
| "to_string (JStr s) = Some s"
| "to_string (JArr xs) =
     join_all (map (\<lambda>x. if x = JUndefined \<or> x = JNull then Some [] else to_string x) xs)"
| "to_string (JObj kvs) =
     (if ''toString'' \<in> fst ` set kvs then None else Some ''[object Object]'')"

text \<open>
  The decimal numeral of a number, as a template literal renders it. \<open>digit\<close> is used
  below 10 only.
\<close>

definition digit :: "nat \<Rightarrow> char" where
  "digit n = ''0123456789'' ! n"

fun string_of_nat :: "nat \<Rightarrow> string" where
  "string_of_nat n =
     (if n < 10 then [digit n] else string_of_nat (n div 10) @ [digit (n mod 10)])"

declare string_of_nat.simps [simp del]

text \<open>The number that a string of decimal digits denotes, read from the left.\<close>

definition digit_value :: "char \<Rightarrow> nat" where
  "digit_value c = of_char c - 48"

definition decimal_value :: "string \<Rightarrow> nat" where
  "decimal_value s = foldl (\<lambda>acc c. 10 * acc + digit_value c) 0 s"

subsection \<open>Errors\<close>

text \<open>
  \<^verbatim>\<open>
  export class ApiError extends Error {
    constructor(public status: number, public statusText: string, message?: string) {
      super(message || `${status} ${statusText}`);
    }
  }
  \<close>
  An \<open>ApiError\<close> object with its \<open>status\<close>, \<open>statusText\<close> and \<open>message\<close>.
\<close>

datatype ApiError = ApiError (err_status: nat) (err_statusText: string) (err_message: string)

text \<open>
  What a call can throw: an \<open>ApiError\<close>, a \<open>TypeError\<close> (a \<open>fetch\<close> that got no
  response, a property read of \<open>null\<close>, a value that has no string), or the
  \<open>SyntaxError\<close> of \<open>response.json()\<close> on a body that is not JSON.
\<close>

datatype thrown = Api ApiError | TypeError | SyntaxError

text \<open>
  \<open>new ApiError(status, statusText, message)\<close>: the \<open>Error\<close> constructor converts its
  argument to a string, which can throw.
\<close>

definition new_ApiError :: "nat \<Rightarrow> string \<Rightarrow> js_value \<Rightarrow> thrown + ApiError" where
  "new_ApiError st txt msg =
     (case to_string (js_or msg (JStr (string_of_nat st @ '' '' @ txt))) of
        None \<Rightarrow> Inl TypeError
      | Some m \<Rightarrow> Inr (ApiError st txt m))"

subsection \<open>The helpers\<close>

text \<open>
  \<^verbatim>\<open>
  async function handleResponse<T>(response: Response): Promise<T> {
    if (!response.ok) {
      let message: string | undefined;
      try {
        const body = await response.json();
        message = body.detail || body.message;
      } catch { /* ignore parse errors */ }
      throw new ApiError(response.status, response.statusText, message);
    }
    return response.json();
  }
  \<close>
  The \<open>try\<close> block leaves \<open>message\<close> undefined when \<open>response.json()\<close> rejects and when
  the body is \<open>null\<close>, whose properties cannot be read.
\<close>

definition handleResponse :: "response \<Rightarrow> thrown + js_value" where
  "handleResponse r =
     (if \<not> ok r then
        (let msg = (case json r of
                      None \<Rightarrow> JUndefined
                    | Some b \<Rightarrow>
                        (case get_prop b ''detail'' of
                           None \<Rightarrow> JUndefined
                         | Some d \<Rightarrow>
                             if truthy d then d
                             else (case get_prop b ''message'' of
                                     None \<Rightarrow> JUndefined
                                   | Some m \<Rightarrow> m)))
         in case new_ApiError (http_status r) (statusText r) msg of
              Inl e \<Rightarrow> Inl e
            | Inr a \<Rightarrow> Inl (Api a))
      else (case json r of
              Some b \<Rightarrow> Inr b
            | None \<Rightarrow> Inl SyntaxError))"

text \<open>\<open>fetch\<close> records the request in the log at the current time.\<close>

definition fetch :: "request \<Rightarrow> world \<Rightarrow> world" where
  "fetch req w = w\<lparr>sent := sent w @ [(clock w, req)]\<rparr>"

definition get_request :: "string \<Rightarrow> string \<Rightarrow> request" where
  "get_request base path =
     \<lparr>http_method = ''GET'', url = base @ path,
      headers = [(''Content-Type'', ''application/json'')], body = None\<rparr>"

definition post_request :: "string \<Rightarrow> string \<Rightarrow> AnalyzeRequest \<Rightarrow> request" where
  "post_request base path b =
     \<lparr>http_method = ''POST'', url = base @ path,
      headers = [(''Content-Type'', ''application/json'')], body = Some b\<rparr>"

text \<open>
  \<^verbatim>\<open>
  export async function get<T>(path: string): Promise<T> {
    const response = await fetch(`${API_BASE_URL}${path}`, { method: "GET", ... });
    return handleResponse<T>(response);
  }
  export async function post<T, B = unknown>(path: string, body: B): Promise<T> {
    const response = await fetch(`${API_BASE_URL}${path}`, { method: "POST", ...,
      body: JSON.stringify(body) });
    return handleResponse<T>(response);
  }
  \<close>
  A call of \<open>get\<close> or \<open>post\<close> issues the request at once and returns a promise. The
  promise settles when \<open>fetch\<close> does, as \<open>settle\<close> says: it is rejected when \<open>fetch\<close>
  is, and otherwise it settles as \<open>handleResponse\<close> does on the response.
\<close>

definition get :: "string \<Rightarrow> world \<Rightarrow> world" where
  "get path w = fetch (get_request (API_BASE_URL w) path) w"

definition post :: "string \<Rightarrow> AnalyzeRequest \<Rightarrow> world \<Rightarrow> world" where
  "post path b w = fetch (post_request (API_BASE_URL w) path b) w"

definition settle :: "fetched \<Rightarrow> thrown + js_value" where
  "settle f = (case f of Failed_to_fetch \<Rightarrow> Inl TypeError | Response r \<Rightarrow> handleResponse r)"

section \<open>The analysis service\<close>

text \<open>
  \<^verbatim>\<open>
  export async function startAnalysis(domain: string): Promise<AnalyzeResponse> {
    return post<AnalyzeResponse, AnalyzeRequest>("/api/analyze", { domain });
  }
  export async function getJobStatus(jobId: string): Promise<JobResponse> {
    return get<JobResponse>(`/api/jobs/${jobId}`);
  }
  \<close>
  The template literal of \<open>getJobStatus\<close> converts the job id to a string; when that
  throws, no request is issued (\<open>None\<close>) and the promise is rejected with the
  \<open>TypeError\<close>.
\<close>

definition startAnalysis :: "string \<Rightarrow> world \<Rightarrow> world" where
  "startAnalysis d w = post ''/api/analyze'' \<lparr>domain = d, competitors = None\<rparr> w"

definition getJobStatus :: "js_value \<Rightarrow> world \<Rightarrow> world option" where
  "getJobStatus jid w =
     (case to_string jid of
        None \<Rightarrow> None
      | Some s \<Rightarrow> Some (get (''/api/jobs/'' @ s) w))"

text \<open>
  The service file exists in a second version, whose \<open>startAnalysis\<close> has an optional
  second parameter:
  \<^verbatim>\<open>
  export async function startAnalysis(domain: string, competitors: string[] = [])
    : Promise<AnalyzeResponse> {
    return post<AnalyzeResponse, AnalyzeRequest>("/api/analyze", { domain, competitors });
  }
  \<close>
  An omitted argument is \<open>None\<close> and takes the default.
\<close>

definition startAnalysis_competitors :: "string \<Rightarrow> string list option \<Rightarrow> world \<Rightarrow> world" where
  "startAnalysis_competitors d comps w =
     post ''/api/analyze''
       \<lparr>domain = d, competitors = Some (case comps of None \<Rightarrow> [] | Some cs \<Rightarrow> cs)\<rparr> w"

section \<open>The job hook \<open>useAnalysisJob\<close>\<close>

definition POLL_INTERVAL :: nat where
  "POLL_INTERVAL = 1500"

text \<open>
  \<^verbatim>\<open>
  const stopPolling = useCallback(() => {
    if (pollRef.current) { clearInterval(pollRef.current); pollRef.current = null; }
  }, []);
  \<close>
\<close>

definition stopPolling :: "hook \<Rightarrow> hook" where
  "stopPolling h = (if pollRef h \<noteq> None then h\<lparr>pollRef := None\<rparr> else h)"

text \<open>\<open>err instanceof ApiError ? err.message : fallback\<close>.\<close>

definition caught_message :: "thrown \<Rightarrow> string \<Rightarrow> string" where
  "caught_message err fallback = (case err of Api e \<Rightarrow> err_message e | _ \<Rightarrow> fallback)"

text \<open>
  \<^verbatim>\<open>
  const poll = useCallback(async (id: string) => {
    try {
      const job = await getJobStatus(id);
      setStatus(job.status);
      setProgress(job.progress);
      if (job.status === "complete") {
        setResult(job.result); setIsLoading(false); stopPolling();
      } else if (job.status === "failed") {
        setError(job.error || "Analysis failed"); setIsLoading(false); stopPolling();
      }
    } catch (err) {
      const message = err instanceof ApiError ? err.message : "Failed to fetch job status";
      setError(message); setIsLoading(false); stopPolling();
    }
  }, [stopPolling]);
  \<close>
  An async function runs to its first \<open>await\<close> when it is called, and the rest runs when
  the awaited promise settles. So \<open>poll\<close> is three pieces: the \<open>catch\<close> block, the rest of
  the \<open>try\<close> block once the read has resolved to \<open>j\<close>, and the call itself, which issues
  the read. Nothing in \<open>poll\<close> tells which read a reply belongs to.
\<close>

definition poll_catch :: "thrown \<Rightarrow> hook \<Rightarrow> hook" where
  "poll_catch err h =
     stopPolling
       (h\<lparr>error := JStr (caught_message err ''Failed to fetch job status''),
          isLoading := False\<rparr>)"

definition poll_try :: "js_value \<Rightarrow> hook \<Rightarrow> hook" where
  "poll_try j h =
     (case get_prop j ''status'' of
        None \<Rightarrow> poll_catch TypeError h
      | Some st \<Rightarrow>
          (let h1 = h\<lparr>status := st\<rparr>
           in case get_prop j ''progress'' of
                None \<Rightarrow> poll_catch TypeError h1
              | Some pr \<Rightarrow>
                  (let h2 = h1\<lparr>progress := pr\<rparr>
                   in if st = JStr ''complete'' then
                        (case get_prop j ''result'' of
                           None \<Rightarrow> poll_catch TypeError h2
                         | Some res \<Rightarrow> stopPolling (h2\<lparr>result := res, isLoading := False\<rparr>))
                      else if st = JStr ''failed'' then
                        (case get_prop j ''error'' of
                           None \<Rightarrow> poll_catch TypeError h2
                         | Some er \<Rightarrow>
                             stopPolling
                               (h2\<lparr>error := js_or er (JStr ''Analysis failed''),
                                   isLoading := False\<rparr>))
                      else h2)))"

definition poll_issue :: "js_value \<Rightarrow> world \<Rightarrow> world" where
  "poll_issue jid w =
     (case getJobStatus jid w of
        None \<Rightarrow> w\<lparr>job := poll_catch TypeError (job w)\<rparr>
      | Some w1 \<Rightarrow> w1\<lparr>reads_in_flight := Suc (reads_in_flight w1)\<rparr>)"

definition poll_resume :: "fetched \<Rightarrow> world \<Rightarrow> world" where
  "poll_resume reply w =
     w\<lparr>job := (case settle reply of
                 Inl err \<Rightarrow> poll_catch err (job w)
               | Inr j \<Rightarrow> poll_try j (job w))\<rparr>"

text \<open>
  \<^verbatim>\<open>
  const start = useCallback(async (domain: string) => {
    stopPolling();
    setError(null); setResult(null); setProgress(null); setIsLoading(true);
    try {
      const response = await startAnalysis(domain);
      setJobId(response.job_id);
      setStatus(response.status);
      pollRef.current = setInterval(() => { poll(response.job_id); }, POLL_INTERVAL);
      poll(response.job_id);
    } catch (err) {
      const message = err instanceof ApiError ? err.message : "Failed to start analysis";
      setError(message); setIsLoading(false);
    }
  }, [poll, stopPolling]);
  \<close>
  Likewise in pieces: the call, which issues the analyze request; the \<open>catch\<close> block; and
  the rest once the analyze request has settled with \<open>reply\<close>. The timer registered then
  fires first one interval later; the initial poll is issued at once and is not awaited.
\<close>

definition start_issue :: "string \<Rightarrow> world \<Rightarrow> world" where
  "start_issue d w =
     startAnalysis d
       (w\<lparr>job := (stopPolling (job w))
               \<lparr>error := JNull, result := JNull, progress := JNull, isLoading := True\<rparr>\<rparr>)"

definition start_catch :: "thrown \<Rightarrow> world \<Rightarrow> world" where
  "start_catch err w =
     w\<lparr>job := (job w)
          \<lparr>error := JStr (caught_message err ''Failed to start analysis''),
           isLoading := False\<rparr>\<rparr>"

definition start_resume :: "fetched \<Rightarrow> world \<Rightarrow> world" where
  "start_resume reply w =
     (case settle reply of
        Inl err \<Rightarrow> start_catch err w
      | Inr response \<Rightarrow>
          (case get_prop response ''job_id'' of
             None \<Rightarrow> start_catch TypeError w
           | Some jid \<Rightarrow>
               (case get_prop response ''status'' of
                  None \<Rightarrow> start_catch TypeError (w\<lparr>job := (job w)\<lparr>jobId := jid\<rparr>\<rparr>)
                | Some st \<Rightarrow>
                    poll_issue jid
                      (w\<lparr>job := (job w)
                            \<lparr>jobId := jid, status := st,
                             pollRef := Some (clock w + POLL_INTERVAL, jid)\<rparr>\<rparr>))))"

text \<open>
  The timer of \<open>setInterval(() => poll(id), POLL_INTERVAL)\<close>: while it is registered it
  fires every \<open>POLL_INTERVAL\<close> milliseconds, whether or not earlier reads have settled,
  and each firing calls \<open>poll\<close>. \<open>fire_n n\<close> is \<open>n\<close> firings in a row, as long as the timer
  stays registered; \<open>elapse dt\<close> lets \<open>dt\<close> milliseconds pass, with every firing that falls
  due in them.
\<close>

fun fire_n :: "nat \<Rightarrow> world \<Rightarrow> world" where
  "fire_n 0 w = w"
| "fire_n (Suc n) w =
     (case pollRef (job w) of
        None \<Rightarrow> w
      | Some (due, jid) \<Rightarrow>
          fire_n n
            (poll_issue jid
               (w\<lparr>clock := due,
                  job := (job w)\<lparr>pollRef := Some (due + POLL_INTERVAL, jid)\<rparr>\<rparr>)))"

definition elapse :: "nat \<Rightarrow> world \<Rightarrow> world" where
  "elapse dt w =
     (let t = clock w + dt
      in case pollRef (job w) of
           None \<Rightarrow> w\<lparr>clock := t\<rparr>
         | Some (due, jid) \<Rightarrow>
             if t < due then w\<lparr>clock := t\<rparr>
             else (fire_n (Suc ((t - due) div POLL_INTERVAL)) w)\<lparr>clock := t\<rparr>)"

text \<open>
  A run of events. A reply can only settle a read that is in flight: a list of events
  that settles more reads than were issued is no run (\<open>None\<close>).
\<close>

fun run :: "event list \<Rightarrow> world \<Rightarrow> world option" where
  "run [] w = Some w"
| "run (Elapse dt # es) w = run es (elapse dt w)"
| "run (Settle reply # es) w =
     (if reads_in_flight w = 0 then None
      else run es (poll_resume reply (w\<lparr>reads_in_flight := reads_in_flight w - 1\<rparr>)))"

text \<open>
  \<^verbatim>\<open>
  const reset = useCallback(() => {
    stopPolling();
    setJobId(null); setStatus(null); setProgress(null);
    setError(null); setResult(null); setIsLoading(false);
  }, [stopPolling]);
  \<close>
\<close>

definition reset :: "hook \<Rightarrow> hook" where
  "reset h = (stopPolling h)
     \<lparr>jobId := JNull, status := JNull, progress := JNull,
      error := JNull, result := JNull, isLoading := False\<rparr>"

section \<open>The page (frontend/app/page.tsx)\<close>

text \<open>
  \<^verbatim>\<open>
  const handleAnalyze = (domain: string, competitors: string[]) => {
    setSubreddits([]); setEntities([]); setRelationships([]);
    setGraphData(null); setCompetitiveOverview(null);
    job.start(domain, competitors);
  };
  \<close>
  \<open>job.start\<close> is the hook's \<open>start\<close>, which has the one parameter \<open>domain\<close>: a
  JavaScript call drops the arguments beyond a function's parameters. The lists the
  page clears are not part of the hook and are left out.
\<close>

definition handleAnalyze :: "string \<Rightarrow> string list \<Rightarrow> world \<Rightarrow> world" where
  "handleAnalyze d comps w = start_issue d w"

text \<open>
  The submit handler of the form (features/analysis/AnalysisForm): the domain is
  trimmed, the competitors field is split at commas, and nothing is submitted for an
  empty domain. Trimming and splitting are done by the caller here: \<open>trimmed\<close> and
  \<open>comps\<close> are their results.
  \<^verbatim>\<open>
  if (trimmed) { onSubmit(trimmed, competitors); }
  \<close>
\<close>

definition handleSubmit :: "string \<Rightarrow> string list \<Rightarrow> world \<Rightarrow> world" where
  "handleSubmit trimmed comps w =
     (if trimmed \<noteq> [] then handleAnalyze trimmed comps w else w)"

section \<open>Observing a started job\<close>

text \<open>The hook before anything was submitted (the initial values of its state).\<close>

definition idle :: hook where
  "idle = \<lparr>jobId = JNull, status = JNull, progress = JNull, error = JNull, result = JNull,
            isLoading = False, pollRef = None\<rparr>"

definition initial_world :: "string \<Rightarrow> world" where
  "initial_world base =
     \<lparr>job = idle, API_BASE_URL = base, clock = 0, sent = [], reads_in_flight = 0\<rparr>"



text \<open>The status read of the job whose id renders as \<open>s\<close>, as \<open>fetch\<close> receives it.\<close>

definition status_read :: "string \<Rightarrow> string \<Rightarrow> request" where
  "status_read base s = get_request base (''/api/jobs/'' @ s)"

text \<open>
  The message that the error for a response that is not ok is to carry, as the interface
  describes it: the error body's \<open>detail\<close>, else its \<open>message\<close>, else
  \<open>"<status> <statusText>"\<close>. A body that is absent, is not JSON or is \<open>null\<close> has
  neither property.
\<close>

definition body_prop :: "response \<Rightarrow> string \<Rightarrow> js_value" where
  "body_prop r k =
     (case json r of
        None \<Rightarrow> JUndefined
      | Some b \<Rightarrow> (case get_prop b k of None \<Rightarrow> JUndefined | Some v \<Rightarrow> v))"

definition error_message_value :: "response \<Rightarrow> js_value" where
  "error_message_value r =
     (if truthy (body_prop r ''detail'') then body_prop r ''detail''
      else if truthy (body_prop r ''message'') then body_prop r ''message''
      else JStr (string_of_nat (http_status r) @ '' '' @ statusText r))"



text \<open>A sample run: the replies of a server to one analysis of \<open>openai.com\<close>.\<close>

definition sample_started :: fetched where
  "sample_started =
     Response \<lparr>ok = True, http_status = 200, statusText = ''OK'',
       json = Some (JObj [(''job_id'', JStr ''j1''), (''status'', JStr ''queued'')])\<rparr>"

definition sample_result :: js_value where
  "sample_result =
     JObj [(''company_name'', JStr ''OpenAI''), (''subreddit_count'', JNum ''20''),
           (''source_count'', JNum ''50''), (''entity_count'', JNum ''7''),
           (''relationship_count'', JNum ''3'')]"

definition sample_job :: "js_value \<Rightarrow> js_value \<Rightarrow> js_value \<Rightarrow> js_value \<Rightarrow> fetched" where
  "sample_job st prog err res =
     Response \<lparr>ok = True, http_status = 200, statusText = ''OK'',
       json = Some (JObj [(''job_id'', JStr ''j1''), (''status'', st), (''progress'', prog),
                          (''error'', err), (''result'', res)])\<rparr>"

text \<open>
  Replies that settle out of order: the initial read is answered only after 4000 ms, by
  which time the job was running; the read of the first firing is answered at once, the
  job being complete by then.
\<close>

definition sample_race :: "event list" where
  "sample_race =
     [Elapse 1500,
      Settle (sample_job (JStr ''complete'') JNull JNull sample_result),
      Elapse 2500,
      Settle (sample_job (JStr ''running'') (JStr ''persisting'') JNull JNull)]"

section \<open>The competitive dashboard (CompetitiveDashboard component)\<close>

text \<open>
  A row of the share table shows, for each target,
  \<^verbatim>\<open>{target}: {formatPercent(row.share[target] || 0)}\<close>
  so a target without an entry, or with the share 0, shows as 0.
\<close>

definition displayed_share :: "SubredditShare \<Rightarrow> string \<Rightarrow> real" where
  "displayed_share row target =
     (case share row target of None \<Rightarrow> 0 | Some v \<Rightarrow> if v \<noteq> 0 then v else 0)"

section \<open>The analytics and resolution engines (backend, not among the frontend sources)\<close>

subsection \<open>Share of voice\<close>

text \<open>
  Modelled from the spec: the backend's arithmetic is missing from the sources. Its
  error handling speaks of division by zero as an error that would be raised
  ("division-by-zero and zero-variance cases are defined rather than raised"), so a
  division is a value or that error.
\<close>

datatype py_error = ZeroDivisionError

definition divide_or_raise :: "real \<Rightarrow> real \<Rightarrow> py_error + real" where
  "divide_or_raise a b = (if b = 0 then Inl ZeroDivisionError else Inr (a / b))"

text \<open>
  Modelled from the spec: the share-of-voice computation of CompetitiveAnalytics is
  missing from the sources. "Share of voice: per subreddit, raw mention counts per target
  and each target's share = count_target / total_mentions_in_subreddit (0 when total is 0)."
\<close>

definition target_share :: "nat \<Rightarrow> nat \<Rightarrow> py_error + real" where
  "target_share count_target total_mentions =
     (if total_mentions = 0 then Inr 0
      else divide_or_raise (real count_target) (real total_mentions))"

text \<open>
  Modelled from the spec: the row of one subreddit is missing from the sources.
  \<open>mentions\<close> lists the mentions found in the subreddit, each by the name it resolves
  to; the row counts them per target and divides by their total number.
\<close>

definition subreddit_share :: "string list \<Rightarrow> string \<Rightarrow> string list \<Rightarrow> SubredditShare" where
  "subreddit_share targets name mentions =
     \<lparr>subreddit = name,
      total = length mentions,
      counts = (\<lambda>t. if t \<in> set targets then Some (count_list mentions t) else None),
      share = (\<lambda>t. if t \<in> set targets
                    then (case target_share (count_list mentions t) (length mentions) of
                            Inr v \<Rightarrow> Some v
                          | Inl e \<Rightarrow> None)
                    else None)\<rparr>"

subsection \<open>Co-mentions\<close>

text \<open>
  Modelled from the spec: the co-mention computation of CompetitiveAnalytics is missing
  from the sources. "Co-mentions: for each unordered pair of targets appearing in the same
  Source, increment a pair counter; returned sorted descending by count."
  A source is given by the targets that appear in it. \<open>unordered_pairs\<close> lists each
  unordered pair of the targets once, \<open>co_count\<close> is the counter of a pair once every
  source has been seen, and only pairs that appear together in some source have a counter.
\<close>

fun unordered_pairs :: "'a list \<Rightarrow> ('a \<times> 'a) list" where
  "unordered_pairs [] = []"
| "unordered_pairs (x # xs) = map (Pair x) xs @ unordered_pairs xs"

text \<open>
  Modelled from the spec: the pair counter, missing from the sources. It is incremented
  once for each source in which both targets appear.
\<close>

definition co_count :: "string list list \<Rightarrow> string \<Rightarrow> string \<Rightarrow> nat" where
  "co_count sources a b = length (filter (\<lambda>src. a \<in> set src \<and> b \<in> set src) sources)"

text \<open>
  Modelled from the spec: the returned list, missing from the sources. One entry for each
  pair that has a counter, "returned sorted descending by count".
\<close>

definition co_mentions :: "string list \<Rightarrow> string list list \<Rightarrow> CoMentionsSummary list" where
  "co_mentions targets sources =
     rev (sort_key count
       (filter (\<lambda>e. 0 < count e)
          (map (\<lambda>(a, b). \<lparr>pair = (a, b), count = co_count sources a b\<rparr>)
             (unordered_pairs targets))))"

text \<open>The count reported for two targets, in whichever order the pair is listed.\<close>

definition reported_count :: "CoMentionsSummary list \<Rightarrow> string \<Rightarrow> string \<Rightarrow> nat" where
  "reported_count out a b =
     (case find (\<lambda>e. pair e = (a, b) \<or> pair e = (b, a)) out of
        Some e \<Rightarrow> count e
      | None \<Rightarrow> 0)"

definition entries_for :: "CoMentionsSummary list \<Rightarrow> string \<Rightarrow> string \<Rightarrow> CoMentionsSummary list" where
  "entries_for out a b = filter (\<lambda>e. pair e = (a, b) \<or> pair e = (b, a)) out"

subsection \<open>Mention confidence\<close>

text \<open>
  Modelled from the spec: the EntityResolver is missing from the sources (the frontend
  only declares the field \<open>confidence\<close> of a mention). "An exact normalized match yields
  confidence 1.0 and binds to that Entity directly, short-circuiting the fuzzy step."
  "Final per-mention confidence shown downstream = llm_confidence * resolution_confidence."
  The normalization of names and the confidence of the fuzzy step are parameters.
\<close>

definition exact_match :: "(string \<Rightarrow> string) \<Rightarrow> string list \<Rightarrow> string \<Rightarrow> bool" where
  "exact_match normalise canonical_names surface =
     (normalise surface \<in> set (map normalise canonical_names))"

text \<open>
  Modelled from the spec: the resolution confidence, missing from the sources. An exact
  normalized match yields 1; otherwise the fuzzy step decides.
\<close>

definition resolution_confidence ::
  "(string \<Rightarrow> string) \<Rightarrow> (string list \<Rightarrow> string \<Rightarrow> real) \<Rightarrow> string list \<Rightarrow> string \<Rightarrow> real" where
  "resolution_confidence normalise fuzzy canonical_names surface =
     (if exact_match normalise canonical_names surface then 1
      else fuzzy canonical_names surface)"

text \<open>
  Modelled from the spec: the final confidence, missing from the sources.
  "Both stages' confidences multiply."
\<close>

definition final_confidence :: "real \<Rightarrow> real \<Rightarrow> real" where
  "final_confidence llm resolution = llm * resolution"

text \<open>
  Modelled from the spec: the confidence shown for a mention, missing from the sources.
  It is the final confidence of the mention's LLM confidence and of the resolution
  confidence of its surface form.
\<close>

definition mention_confidence ::
  "(string \<Rightarrow> string) \<Rightarrow> (string list \<Rightarrow> string \<Rightarrow> real) \<Rightarrow> string list \<Rightarrow> Mention \<Rightarrow> real" where
  "mention_confidence normalise fuzzy canonical_names m =
     final_confidence (llm_confidence m)
       (resolution_confidence normalise fuzzy canonical_names (surface_form m))"

section \<open>Properties of the formatting helpers\<close>

lemma slice_prefix:
  "0 \<le> k \<Longrightarrow> k \<le> int (length str) \<Longrightarrow> js_slice str 0 k = take (nat k) str"
  by (simp add: js_slice_def Let_def)

lemma length_ellipsis: "length ellipsis = 3"
  by (simp add: ellipsis_def)

text \<open>
  C9. For every string \<open>s\<close> and every \<open>maxLen \<ge> 3\<close>, \<open>truncate s maxLen\<close> is \<open>s\<close> itself
  when \<open>s\<close> has at most \<open>maxLen\<close> code units, and otherwise the first \<open>maxLen - 3\<close> code
  units of \<open>s\<close> followed by \<open>"..."\<close>, of length exactly \<open>maxLen\<close>; so the result never
  exceeds \<open>maxLen\<close>, and rendered snippets and evidence never exceed 200 and 150.
\<close>

theorem truncate_spec:
  assumes "3 \<le> maxLen"
  shows "(int (length s) \<le> maxLen \<longrightarrow> truncate s maxLen = s)
       \<and> (maxLen < int (length s) \<longrightarrow>
            truncate s maxLen = take (nat (maxLen - 3)) s @ ellipsis
          \<and> int (length (truncate s maxLen)) = maxLen)
       \<and> int (length (truncate s maxLen)) \<le> maxLen
       \<and> length (rendered_snippet s) \<le> 200
       \<and> length (rendered_evidence s) \<le> 150"
proof -
  have short: "int (length s) \<le> n \<Longrightarrow> truncate s n = s" for n
    by (simp add: truncate_def)
  have long_eq: "truncate s n = take (nat (n - 3)) s @ ellipsis"
    if "3 \<le> n" "n < int (length s)" for n
  proof -
    have "js_slice s 0 (n - 3) = take (nat (n - 3)) s"
      using that by (intro slice_prefix) auto
    then show ?thesis
      using that by (simp add: truncate_def)
  qed
  have long_len: "int (length (truncate s n)) = n"
    if "3 \<le> n" "n < int (length s)" for n
  proof -
    have "length (take (nat (n - 3)) s @ ellipsis) = nat (n - 3) + 3"
      using that by (simp add: length_ellipsis)
    then show ?thesis
      using that by (simp add: long_eq)
  qed
  have bound: "int (length (truncate s n)) \<le> n" if "3 \<le> n" for n
  proof (cases "int (length s) \<le> n")
    case True
    then show ?thesis by (simp add: short)
  next
    case False
    with that show ?thesis by (simp add: long_len)
  qed
  have "int (length (rendered_snippet s)) \<le> 200"
    unfolding rendered_snippet_def by (rule bound) simp
  moreover have "int (length (rendered_evidence s)) \<le> 150"
    unfolding rendered_evidence_def by (rule bound) simp
  ultimately show ?thesis
    using assms short [of maxLen] long_eq [of maxLen] long_len [of maxLen] bound [of maxLen]
    by simp
qed

theorem truncate_spec_witness:
  "(3::int) \<le> 5
   \<and> truncate [0x61, 0x62, 0x63, 0x64, 0x65, 0x66, 0x67] 5 = [0x61, 0x62, 0x2E, 0x2E, 0x2E]
   \<and> truncate [0x61, 0x62, 0x63] 5 = [0x61, 0x62, 0x63]"
  using truncate_spec [of 5 "[0x61, 0x62, 0x63, 0x64, 0x65, 0x66, 0x67]"]
    truncate_spec [of 5 "[0x61, 0x62, 0x63]"]
  by (simp add: ellipsis_def)

section \<open>Properties of the progress bar\<close>

lemma step_index_mono:
  "step_index p \<le> step_index q \<Longrightarrow> progressPercent p \<le> progressPercent q"
  by (cases p; cases q; simp)

lemma progressPercent_bounds: "10 \<le> progressPercent p \<and> progressPercent p \<le> 95"
  by (cases p) simp_all

lemma step_index_bounds: "1 \<le> step_index p \<and> step_index p \<le> 5"
  by (cases p) simp_all

lemma percent_mono:
  "stage (s1, p1) \<le> stage (s2, p2) \<Longrightarrow> percent s1 p1 \<le> percent s2 p2"
proof (cases p1)
  case None
  note n1 = this
  show "stage (s1, p1) \<le> stage (s2, p2) \<Longrightarrow> percent s1 p1 \<le> percent s2 p2"
  proof (cases p2)
    case None
    with n1 show "stage (s1, p1) \<le> stage (s2, p2) \<Longrightarrow> percent s1 p1 \<le> percent s2 p2"
      by (simp add: percent_def split: if_splits)
  next
    case (Some q)
    with n1 show "stage (s1, p1) \<le> stage (s2, p2) \<Longrightarrow> percent s1 p1 \<le> percent s2 p2"
      using step_index_bounds [of q] progressPercent_bounds [of q]
      by (simp add: percent_def split: if_splits)
  qed
next
  case (Some p)
  note s1 = this
  show "stage (s1, p1) \<le> stage (s2, p2) \<Longrightarrow> percent s1 p1 \<le> percent s2 p2"
  proof (cases p2)
    case None
    with s1 show "stage (s1, p1) \<le> stage (s2, p2) \<Longrightarrow> percent s1 p1 \<le> percent s2 p2"
      using step_index_bounds [of p] progressPercent_bounds [of p]
      by (simp add: percent_def split: if_splits)
  next
    case (Some q)
    with s1 show "stage (s1, p1) \<le> stage (s2, p2) \<Longrightarrow> percent s1 p1 \<le> percent s2 p2"
      by (simp add: percent_def step_index_mono)
  qed
qed

lemma displayed_sorted: "follows_sequence obs \<Longrightarrow> sorted (displayed obs)"
proof -
  assume "follows_sequence obs"
  then have "sorted_wrt (\<lambda>a b. stage a \<le> stage b) obs"
    by (simp add: follows_sequence_def sorted_map)
  then have "sorted_wrt (\<lambda>a b. (case a of (st, prog) \<Rightarrow> percent st prog) \<le> (case b of (st, prog) \<Rightarrow> percent st prog)) obs"
    by (rule sorted_wrt_mono_rel [rotated]) (auto intro: percent_mono)
  then show ?thesis
    by (simp add: displayed_def sorted_map)
qed

text \<open>
  C5. The percentage shown for a progress step is strictly increasing along the fixed
  sequence resolving_company, discovering_subreddits, fetching_sources, llm_extraction,
  persisting (10, 25, 50, 75, 95, all below 100), the complete status maps to 100, and
  the displayed percentage never decreases along observations that follow the sequence.
\<close>

theorem progress_percent_monotone:
  "sorted_wrt (<) (map progressPercent progress_sequence)
   \<and> percent Complete None = 100
   \<and> (\<forall>p. progressPercent p < 100)
   \<and> (follows_sequence obs \<longrightarrow> sorted (displayed obs))"
proof -
  have "sorted_wrt (<) (map progressPercent progress_sequence)"
    by (simp add: progress_sequence_def)
  moreover have "percent Complete None = 100"
    by (simp add: percent_def)
  moreover have "progressPercent p < 100" for p
    by (cases p) simp_all
  ultimately show ?thesis
    using displayed_sorted by blast
qed

theorem progress_percent_monotone_witness:
  "follows_sequence
     [(Queued, None), (Running, None), (Running, Some Resolving_company),
      (Running, Some Discovering_subreddits), (Running, Some Fetching_sources),
      (Running, Some Fetching_sources), (Running, Some Llm_extraction),
      (Running, Some Persisting), (Complete, None)]
   \<and> displayed
     [(Queued, None), (Running, None), (Running, Some Resolving_company),
      (Running, Some Discovering_subreddits), (Running, Some Fetching_sources),
      (Running, Some Fetching_sources), (Running, Some Llm_extraction),
      (Running, Some Persisting), (Complete, None)]
     = [0, 0, 10, 25, 50, 50, 75, 95, 100]
   \<and> sorted [0, 0, 10, 25, 50, 50, 75, 95, 100 :: nat]"
  using progress_percent_monotone
    [of "[(Queued, None), (Running, None), (Running, Some Resolving_company),
      (Running, Some Discovering_subreddits), (Running, Some Fetching_sources),
      (Running, Some Fetching_sources), (Running, Some Llm_extraction),
      (Running, Some Persisting), (Complete, None)]"]
  by (simp add: follows_sequence_def displayed_def percent_def)

section \<open>Properties of the API client\<close>

lemma get_prop_None: "get_prop j k = None \<longleftrightarrow> j = JUndefined \<or> j = JNull"
  by (cases j) simp_all

lemma get_prop_Some_other: "get_prop j k = Some v \<Longrightarrow> \<exists>v'. get_prop j k' = Some v'"
  by (cases j) simp_all

lemma digit_value_digit: "d < 10 \<Longrightarrow> digit_value (digit d) = d"
proof -
  assume "d < 10"
  then have "d = 0 \<or> d = 1 \<or> d = 2 \<or> d = 3 \<or> d = 4 \<or> d = 5 \<or> d = 6 \<or> d = 7 \<or> d = 8 \<or> d = 9"
    by arith
  then show ?thesis
    by (elim disjE) (simp_all add: digit_def digit_value_def)
qed

lemma decimal_value_snoc: "decimal_value (s @ [c]) = 10 * decimal_value s + digit_value c"
  by (simp add: decimal_value_def)

lemma decimal_string_of_nat: "decimal_value (string_of_nat n) = n"
proof (induction n rule: string_of_nat.induct)
  case (1 n)
  show ?case
  proof (cases "n < 10")
    case True
    then show ?thesis
      by (simp add: string_of_nat.simps [of n] decimal_value_def digit_value_digit)
  next
    case False
    then have "decimal_value (string_of_nat (n div 10)) = n div 10"
      by (rule "1.IH")
    then show ?thesis
      using False
      by (simp add: string_of_nat.simps [of n] decimal_value_snoc digit_value_digit)
  qed
qed

lemma new_ApiError_message:
  "new_ApiError st txt msg =
     (case to_string (if truthy msg then msg else JStr (string_of_nat st @ '' '' @ txt)) of
        None \<Rightarrow> Inl TypeError
      | Some m \<Rightarrow> Inr (ApiError st txt m))"
  by (simp add: new_ApiError_def js_or_def)

lemma handleResponse_not_ok:
  assumes "\<not> ok r"
  shows "handleResponse r =
     (case to_string (error_message_value r) of
        None \<Rightarrow> Inl TypeError
      | Some m \<Rightarrow> Inl (Api (ApiError (http_status r) (statusText r) m)))"
proof (cases "json r")
  case None
  then show ?thesis
    using assms
    by (simp add: handleResponse_def new_ApiError_message error_message_value_def
        body_prop_def)
next
  case (Some b)
  show ?thesis
  proof (cases "get_prop b ''detail''")
    case None
    then have "get_prop b ''message'' = None"
      by (simp add: get_prop_None)
    with None Some show ?thesis
      using assms
      by (simp add: handleResponse_def new_ApiError_message error_message_value_def
          body_prop_def)
  next
    case d: (Some d)
    obtain m where m: "get_prop b ''message'' = Some m"
      using get_prop_Some_other [OF d, of "''message''"] by auto
    show ?thesis
      using assms Some d m
      by (cases "to_string d"; cases "to_string m")
        (simp_all add: handleResponse_def new_ApiError_message error_message_value_def
          body_prop_def)
  qed
qed

text \<open>
  C10, as the client has it. \<open>handleResponse\<close>, and with it the promise of \<open>get\<close> and
  \<open>post\<close>, returns a value exactly for an ok response whose body parses, and the value
  is the parsed body; an ok response whose body is absent or is not JSON is rejected with
  the \<open>SyntaxError\<close>. For a response that is not ok nothing is returned: an \<open>ApiError\<close>
  is thrown with the response's status and status text, whose message is the string of the
  body's \<open>detail\<close>, else of its \<open>message\<close>, else \<open>"<status> <statusText>"\<close>, the last
  also when the body is absent or is not JSON; when that value has no string, the
  \<open>TypeError\<close> of the conversion is thrown instead. The status in the fallback is its
  decimal numeral.
\<close>

theorem handleResponse_spec:
  "(handleResponse r = Inr v \<longleftrightarrow> ok r \<and> json r = Some v)
   \<and> (ok r \<and> json r = None \<longrightarrow> handleResponse r = Inl SyntaxError)
   \<and> (\<not> ok r \<longrightarrow>
        handleResponse r =
          (case to_string (error_message_value r) of
             None \<Rightarrow> Inl TypeError
           | Some m \<Rightarrow> Inl (Api (ApiError (http_status r) (statusText r) m))))
   \<and> (\<not> ok r \<and> json r = None \<longrightarrow>
        handleResponse r =
          Inl (Api (ApiError (http_status r) (statusText r)
                 (string_of_nat (http_status r) @ '' '' @ statusText r))))
   \<and> settle (Response r) = handleResponse r
   \<and> decimal_value (string_of_nat (http_status r)) = http_status r"
proof -
  have ret: "handleResponse r = Inr v \<longleftrightarrow> ok r \<and> json r = Some v"
  proof (cases "ok r")
    case True
    then show ?thesis
      by (cases "json r") (auto simp: handleResponse_def)
  next
    case False
    then show ?thesis
      by (simp add: handleResponse_not_ok split: option.splits)
  qed
  have syn: "handleResponse r = Inl SyntaxError" if "ok r" "json r = None"
    using that by (simp add: handleResponse_def)
  have fb: "handleResponse r =
          Inl (Api (ApiError (http_status r) (statusText r)
                 (string_of_nat (http_status r) @ '' '' @ statusText r)))"
    if "\<not> ok r" "json r = None"
    using that by (simp add: handleResponse_not_ok error_message_value_def body_prop_def)
  have "settle (Response r) = handleResponse r"
    by (simp add: settle_def)
  then show ?thesis
    using ret syn fb handleResponse_not_ok decimal_string_of_nat by blast
qed

theorem handleResponse_spec_witness:
  "\<not> ok \<lparr>ok = False, http_status = 404, statusText = ''Not Found'', json = None\<rparr>
   \<and> handleResponse \<lparr>ok = False, http_status = 404, statusText = ''Not Found'', json = None\<rparr>
     = Inl (Api (ApiError 404 ''Not Found'' ''404 Not Found''))
   \<and> handleResponse \<lparr>ok = False, http_status = 404, statusText = ''Not Found'',
        json = Some (JObj [(''detail'', JStr ''Job not found'')])\<rparr>
     = Inl (Api (ApiError 404 ''Not Found'' ''Job not found''))
   \<and> handleResponse \<lparr>ok = False, http_status = 422, statusText = ''Unprocessable Entity'',
        json = Some (JObj [(''detail'', JArr [JObj [(''msg'', JStr ''field required'')]])])\<rparr>
     = Inl (Api (ApiError 422 ''Unprocessable Entity'' ''[object Object]''))
   \<and> handleResponse \<lparr>ok = True, http_status = 200, statusText = ''OK'',
        json = Some (JObj [(''job_id'', JStr ''j1'')])\<rparr>
     = Inr (JObj [(''job_id'', JStr ''j1'')])"
  using handleResponse_spec
      [of "\<lparr>ok = False, http_status = 404, statusText = ''Not Found'', json = None\<rparr>"]
    handleResponse_spec
      [of "\<lparr>ok = False, http_status = 404, statusText = ''Not Found'',
        json = Some (JObj [(''detail'', JStr ''Job not found'')])\<rparr>"]
    handleResponse_spec
      [of "\<lparr>ok = False, http_status = 422, statusText = ''Unprocessable Entity'',
        json = Some (JObj [(''detail'', JArr [JObj [(''msg'', JStr ''field required'')]])])\<rparr>"]
    handleResponse_spec
      [of "\<lparr>ok = True, http_status = 200, statusText = ''OK'',
        json = Some (JObj [(''job_id'', JStr ''j1'')])\<rparr>" "JObj [(''job_id'', JStr ''j1'')]"]
  by (simp add: error_message_value_def body_prop_def string_of_nat.simps digit_def)

text \<open>
  Where C10 fails as it is worded: an ok response without a JSON body gives no value but
  a \<open>SyntaxError\<close>, and the error body \<open>{"detail": {"toString": 1}}\<close> gives a
  \<open>TypeError\<close>, not an \<open>ApiError\<close>.
\<close>

theorem handleResponse_counterexample:
  "ok \<lparr>ok = True, http_status = 200, statusText = ''OK'', json = None\<rparr>
   \<and> handleResponse \<lparr>ok = True, http_status = 200, statusText = ''OK'', json = None\<rparr>
     = Inl SyntaxError
   \<and> settle (Response \<lparr>ok = True, http_status = 200, statusText = ''OK'', json = None\<rparr>)
     = Inl SyntaxError
   \<and> handleResponse \<lparr>ok = False, http_status = 500, statusText = ''Internal Server Error'',
        json = Some (JObj [(''detail'', JObj [(''toString'', JNum ''1'')])])\<rparr>
     = Inl TypeError"
  by (simp add: handleResponse_def settle_def new_ApiError_def js_or_def)

section \<open>Properties of the job hook\<close>

lemma pollRef_stopPolling: "pollRef (stopPolling h) = None"
  by (cases "pollRef h") (simp_all add: stopPolling_def)














lemma start_issue_props:
  "pollRef (job (start_issue d w)) = None"
  "sent (start_issue d w) =
     sent w @ [(clock w, post_request (API_BASE_URL w) ''/api/analyze''
                           \<lparr>domain = d, competitors = None\<rparr>)]"
  "API_BASE_URL (start_issue d w) = API_BASE_URL w"
  "clock (start_issue d w) = clock w"
  by (simp_all add: start_issue_def startAnalysis_def post_def fetch_def pollRef_stopPolling)




lemmas eval_defs = run.simps elapse_def fire_n.simps poll_issue_def poll_resume_def poll_try_def poll_catch_def
  start_resume_def start_issue_def startAnalysis_def getJobStatus_def get_def post_def fetch_def settle_def
  handleResponse_def stopPolling_def initial_world_def idle_def sample_started_def sample_job_def
  POLL_INTERVAL_def Let_def get_request_def post_request_def status_read_def js_or_def

text \<open>
  C4 fails when replies settle out of order. In the sample run the read of the first
  firing is answered first, with the complete job and its result; the reply to the
  initial read, which says running, settles after it. The hook then exposes the status
  running together with the result.
\<close>

theorem stale_reply_keeps_result:
  "map_option (\<lambda>w. (status (job w), result (job w), pollRef (job w), map fst (sent w)))
     (run sample_race
        (start_resume sample_started
           (start_issue ''openai.com'' (initial_world ''http://api''))))
   = Some (JStr ''running'', sample_result, None, [0, 0, 1500])
   \<and> sample_result \<noteq> JNull"
  by (simp add: sample_race_def eval_defs sample_result_def)











lemma analyze_request_first:
  "sent (handleAnalyze d comps w) =
     sent w @ [(clock w, post_request (API_BASE_URL w) ''/api/analyze''
                           \<lparr>domain = d, competitors = None\<rparr>)]"
  by (simp add: handleAnalyze_def start_issue_props)

text \<open>
  C1. The submission of the domain \<open>openai.com\<close> with the competitor \<open>anthropic.com\<close>:
  the body of the analyze request has the domain and no competitors, because the hook's
  \<open>start\<close> takes the domain only. With the other version of the service, which has the
  parameter, the hook's one-argument call sends the empty list.
\<close>

theorem analyze_request_omits_competitors:
  "map (\<lambda>(t, rq). (http_method rq, url rq, body rq))
     (sent (start_resume sample_started
        (handleSubmit ''openai.com'' [''anthropic.com''] (initial_world ''http://api''))))
   = [(''POST'', ''http://api/api/analyze'',
        Some \<lparr>domain = ''openai.com'', competitors = None\<rparr>),
      (''GET'', ''http://api/api/jobs/j1'', None)]
   \<and> Some \<lparr>domain = ''openai.com'', competitors = None\<rparr>
     \<noteq> Some \<lparr>domain = ''openai.com'', competitors = Some [''anthropic.com'']\<rparr>
   \<and> map (\<lambda>(t, rq). (http_method rq, url rq, body rq))
       (sent (startAnalysis_competitors ''openai.com'' None (initial_world ''http://api'')))
     = [(''POST'', ''http://api/api/analyze'',
          Some \<lparr>domain = ''openai.com'', competitors = Some []\<rparr>)]"
  by (simp add: handleSubmit_def handleAnalyze_def startAnalysis_competitors_def eval_defs)

section \<open>Properties of the analytics and of the mention confidence\<close>

lemma target_share_value:
  "target_share c tot = Inr (if tot = 0 then 0 else real c / real tot)"
  by (simp add: target_share_def divide_or_raise_def)

lemma share_entry:
  "t \<in> set targets \<Longrightarrow>
   share (subreddit_share targets name mentions) t =
     Some (if length mentions = 0 then 0
           else real (count_list mentions t) / real (length mentions))"
  by (simp add: subreddit_share_def target_share_value)

lemma displayed_share_entry:
  "t \<in> set targets \<Longrightarrow>
   displayed_share (subreddit_share targets name mentions) t =
     (if length mentions = 0 then 0
      else real (count_list mentions t) / real (length mentions))"
  by (simp add: displayed_share_def share_entry)

lemma counts_le_length:
  "(\<Sum>t\<in>set targets. count_list mentions t) \<le> length mentions"
proof -
  have "(\<Sum>t\<in>set targets. count_list mentions t)
      \<le> (\<Sum>t\<in>set targets \<union> set mentions. count_list mentions t)"
    by (rule sum_mono2) auto
  also have "\<dots> = length mentions"
    by (rule sum_count_set) auto
  finally show ?thesis .
qed

lemma shares_sum_le_one:
  "(\<Sum>t\<in>set targets. displayed_share (subreddit_share targets name mentions) t) \<le> 1"
proof (cases "length mentions = 0")
  case True
  then have "(\<Sum>t\<in>set targets. displayed_share (subreddit_share targets name mentions) t)
      = (\<Sum>t\<in>set targets. 0)"
    by (intro sum.cong) (simp_all add: displayed_share_entry)
  then show ?thesis by simp
next
  case False
  have "(\<Sum>t\<in>set targets. displayed_share (subreddit_share targets name mentions) t)
      = (\<Sum>t\<in>set targets. real (count_list mentions t) / real (length mentions))"
    using False by (intro sum.cong) (simp_all add: displayed_share_entry)
  also have "\<dots> = real (\<Sum>t\<in>set targets. count_list mentions t) / real (length mentions)"
    by (simp add: sum_divide_distrib [symmetric])
  also have "\<dots> \<le> 1"
  proof -
    have "(\<Sum>t\<in>set targets. count_list mentions t) \<le> length mentions"
      by (rule counts_le_length)
    then have "real (\<Sum>t\<in>set targets. count_list mentions t) \<le> real (length mentions)"
      by (rule of_nat_mono)
    then show ?thesis
      using False by simp
  qed
  finally show ?thesis .
qed

text \<open>
  C7. A target's share in a subreddit is its count divided by the total number of
  mentions in the subreddit, and 0 when the total is 0: the computation never raises a
  division by zero. The shares of the targets of one subreddit sum to at most 1.
\<close>

theorem share_of_voice:
  "target_share c tot = Inr (if tot = 0 then 0 else real c / real tot)
   \<and> total (subreddit_share targets name mentions) = length mentions
   \<and> (t \<in> set targets \<longrightarrow>
        counts (subreddit_share targets name mentions) t = Some (count_list mentions t)
      \<and> share (subreddit_share targets name mentions) t =
          Some (if length mentions = 0 then 0
                else real (count_list mentions t) / real (length mentions))
      \<and> displayed_share (subreddit_share targets name mentions) t =
          (if length mentions = 0 then 0
           else real (count_list mentions t) / real (length mentions)))
   \<and> (\<Sum>t\<in>set targets. displayed_share (subreddit_share targets name mentions) t) \<le> 1"
proof -
  have "total (subreddit_share targets name mentions) = length mentions"
    by (simp add: subreddit_share_def)
  moreover have "counts (subreddit_share targets name mentions) t = Some (count_list mentions t)"
    if "t \<in> set targets"
    using that by (simp add: subreddit_share_def)
  ultimately show ?thesis
    using target_share_value share_entry displayed_share_entry shares_sum_le_one by blast
qed

theorem share_of_voice_witness:
  "''openai'' \<in> set [''openai'', ''anthropic'']
   \<and> displayed_share
       (subreddit_share [''openai'', ''anthropic''] ''MachineLearning''
          [''openai'', ''anthropic'', ''openai'', ''google'']) ''openai'' = 1 / 2
   \<and> displayed_share
       (subreddit_share [''openai'', ''anthropic''] ''MachineLearning''
          [''openai'', ''anthropic'', ''openai'', ''google'']) ''anthropic'' = 1 / 4
   \<and> displayed_share (subreddit_share [''openai'', ''anthropic''] ''empty'' []) ''openai'' = 0
   \<and> target_share 3 0 = Inr 0"
  using share_of_voice [of 3 0 "[''openai'', ''anthropic'']" "''MachineLearning''"
      "[''openai'', ''anthropic'', ''openai'', ''google'']" "''openai''"]
    share_of_voice [of 3 0 "[''openai'', ''anthropic'']" "''MachineLearning''"
      "[''openai'', ''anthropic'', ''openai'', ''google'']" "''anthropic''"]
    share_of_voice [of 3 0 "[''openai'', ''anthropic'']" "''empty''" "[]" "''openai''"]
  by simp

text \<open>
  C2. The confidence of a resolved mention is the product of the LLM confidence and the
  resolution confidence; the product lies in [0,1] when both factors do; and it equals
  the LLM confidence when the normalized surface form matches an existing canonical
  name exactly (resolution confidence 1). For an LLM confidence other than 0 the product
  equals it only when the resolution confidence is 1.
\<close>

theorem mention_confidence_product:
  "mention_confidence normalise fuzzy names m =
     llm_confidence m * resolution_confidence normalise fuzzy names (surface_form m)
   \<and> (0 \<le> l \<and> l \<le> 1 \<and> 0 \<le> r \<and> r \<le> 1 \<longrightarrow>
        0 \<le> final_confidence l r \<and> final_confidence l r \<le> 1)
   \<and> (exact_match normalise names (surface_form m) \<longrightarrow>
        resolution_confidence normalise fuzzy names (surface_form m) = 1
      \<and> mention_confidence normalise fuzzy names m = llm_confidence m)
   \<and> (l \<noteq> 0 \<longrightarrow> (final_confidence l r = l) = (r = 1))"
proof -
  have prod: "mention_confidence normalise fuzzy names m =
     llm_confidence m * resolution_confidence normalise fuzzy names (surface_form m)"
    by (simp add: mention_confidence_def final_confidence_def)
  have range: "0 \<le> final_confidence l r \<and> final_confidence l r \<le> 1"
    if "0 \<le> l" "l \<le> 1" "0 \<le> r" "r \<le> 1"
  proof -
    have "l * r \<le> 1 * 1"
      using that by (intro mult_mono) simp_all
    then show ?thesis
      using that by (simp add: final_confidence_def)
  qed
  have exact: "resolution_confidence normalise fuzzy names (surface_form m) = 1
      \<and> mention_confidence normalise fuzzy names m = llm_confidence m"
    if "exact_match normalise names (surface_form m)"
    using that by (simp add: prod resolution_confidence_def)
  have "(final_confidence l r = l) = (r = 1)" if "l \<noteq> 0"
    using that by (simp add: final_confidence_def)
  then show ?thesis
    using prod range exact by blast
qed

theorem mention_confidence_product_witness:
  "exact_match (\<lambda>s. s) [''openai'', ''anthropic'']
     (surface_form \<lparr>surface_form = ''openai'', snippet = None, source_id = ''t3_1'',
                    llm_confidence = 9 / 10\<rparr>)
   \<and> mention_confidence (\<lambda>s. s) (\<lambda>names s. 3 / 4) [''openai'', ''anthropic'']
       \<lparr>surface_form = ''openai'', snippet = None, source_id = ''t3_1'',
        llm_confidence = 9 / 10\<rparr> = 9 / 10
   \<and> (0::real) \<le> 9 / 10 \<and> (9 / 10 :: real) \<le> 1 \<and> (0::real) \<le> 3 / 4 \<and> (3 / 4 :: real) \<le> 1
   \<and> final_confidence (9 / 10) (3 / 4) = 27 / 40"
  using mention_confidence_product [of "\<lambda>s. s" "\<lambda>names s. 3 / 4" "[''openai'', ''anthropic'']"
      "\<lparr>surface_form = ''openai'', snippet = None, source_id = ''t3_1'',
        llm_confidence = 9 / 10\<rparr>" "9 / 10" "3 / 4"]
  by (simp add: exact_match_def final_confidence_def)

lemma unordered_pairs_subset:
  "(a, b) \<in> set (unordered_pairs xs) \<Longrightarrow> a \<in> set xs \<and> b \<in> set xs"
  by (induction xs) auto

lemma unordered_pairs_distinct: "distinct xs \<Longrightarrow> distinct (unordered_pairs xs)"
proof (induction xs)
  case Nil
  then show ?case by simp
next
  case (Cons x xs)
  have "distinct (map (Pair x) xs)"
    using Cons.prems by (simp add: distinct_map inj_on_def)
  moreover have "set (map (Pair x) xs) \<inter> set (unordered_pairs xs) = {}"
    using Cons.prems by (auto dest: unordered_pairs_subset)
  ultimately show ?case
    using Cons by simp
qed

lemma unordered_pairs_one_order:
  "distinct xs \<Longrightarrow> (a, b) \<in> set (unordered_pairs xs) \<Longrightarrow>
   a \<noteq> b \<and> (b, a) \<notin> set (unordered_pairs xs)"
proof (induction xs)
  case Nil
  then show ?case by simp
next
  case (Cons x xs)
  then show ?case
    by (auto dest: unordered_pairs_subset)
qed

lemma unordered_pairs_cover:
  "a \<in> set xs \<Longrightarrow> b \<in> set xs \<Longrightarrow> a \<noteq> b \<Longrightarrow>
   (a, b) \<in> set (unordered_pairs xs) \<or> (b, a) \<in> set (unordered_pairs xs)"
  by (induction xs) auto

lemma unordered_pairs_once:
  assumes "distinct xs"
  shows "length (filter (\<lambda>p. p = (a, b) \<or> p = (b, a)) (unordered_pairs xs)) =
           (if a \<in> set xs \<and> b \<in> set xs \<and> a \<noteq> b then 1 else 0)"
proof -
  let ?ps = "unordered_pairs xs"
  have len: "length (filter (\<lambda>p. p = (a, b) \<or> p = (b, a)) ?ps) =
      card ({p. p = (a, b) \<or> p = (b, a)} \<inter> set ?ps)"
    using assms by (intro distinct_length_filter unordered_pairs_distinct)
  show ?thesis
  proof (cases "a \<in> set xs \<and> b \<in> set xs \<and> a \<noteq> b")
    case True
    then consider "(a, b) \<in> set ?ps" | "(b, a) \<in> set ?ps"
      using unordered_pairs_cover [of a xs b] by blast
    then have "{p. p = (a, b) \<or> p = (b, a)} \<inter> set ?ps = {(a, b)}
             \<or> {p. p = (a, b) \<or> p = (b, a)} \<inter> set ?ps = {(b, a)}"
    proof cases
      case 1
      then have "(b, a) \<notin> set ?ps"
        using unordered_pairs_one_order [OF assms, of a b] by simp
      with 1 show ?thesis by auto
    next
      case 2
      then have "(a, b) \<notin> set ?ps"
        using unordered_pairs_one_order [OF assms, of b a] by simp
      with 2 show ?thesis by auto
    qed
    then have "card ({p. p = (a, b) \<or> p = (b, a)} \<inter> set ?ps) = 1"
      by auto
    with True len show ?thesis by simp
  next
    case False
    have "{p. p = (a, b) \<or> p = (b, a)} \<inter> set ?ps = {}"
    proof (rule ccontr)
      assume "{p. p = (a, b) \<or> p = (b, a)} \<inter> set ?ps \<noteq> {}"
      then have "(a, b) \<in> set ?ps \<or> (b, a) \<in> set ?ps"
        by auto
      then have "a \<in> set xs \<and> b \<in> set xs \<and> a \<noteq> b"
        using unordered_pairs_subset [of a b xs] unordered_pairs_subset [of b a xs]
          unordered_pairs_one_order [OF assms, of a b]
          unordered_pairs_one_order [OF assms, of b a]
        by auto
      with False show False by simp
    qed
    with False len show ?thesis by simp
  qed
qed

lemma co_count_sym: "co_count sources a b = co_count sources b a"
  by (simp add: co_count_def conj_commute)

lemma entries_for_length:
  "length (entries_for (co_mentions targets sources) a b) =
     length (filter (\<lambda>p. (p = (a, b) \<or> p = (b, a)) \<and> 0 < co_count sources (fst p) (snd p))
               (unordered_pairs targets))"
proof -
  let ?g = "\<lambda>(a, b). \<lparr>pair = (a, b), count = co_count sources a b\<rparr>"
  let ?P = "\<lambda>e. pair e = (a, b) \<or> pair e = (b, a)"
  let ?Q = "\<lambda>e :: CoMentionsSummary. 0 < count e"
  have "entries_for (co_mentions targets sources) a b =
      rev (sort_key count (filter ?P (filter ?Q (map ?g (unordered_pairs targets)))))"
    unfolding entries_for_def co_mentions_def
    by (simp only: rev_filter [symmetric] filter_sort)
  then have "length (entries_for (co_mentions targets sources) a b) =
      length (filter ?P (filter ?Q (map ?g (unordered_pairs targets))))"
    by simp
  also have "\<dots> = length (filter (\<lambda>p. ?Q (?g p) \<and> ?P (?g p)) (unordered_pairs targets))"
    by (simp add: filter_map comp_def)
  also have "\<dots> = length (filter (\<lambda>p. (p = (a, b) \<or> p = (b, a))
        \<and> 0 < co_count sources (fst p) (snd p)) (unordered_pairs targets))"
    by (intro arg_cong [where f = length] filter_cong) (auto simp: case_prod_beta)
  finally show ?thesis .
qed

lemma entries_for_le_one:
  assumes "distinct targets"
  shows "length (entries_for (co_mentions targets sources) a b) \<le> 1"
proof -
  have "length (filter (\<lambda>p. (p = (a, b) \<or> p = (b, a)) \<and> 0 < co_count sources (fst p) (snd p))
               (unordered_pairs targets))
      = length (filter (\<lambda>p. 0 < co_count sources (fst p) (snd p))
          (filter (\<lambda>p. p = (a, b) \<or> p = (b, a)) (unordered_pairs targets)))"
    by simp
  also have "\<dots> \<le> length (filter (\<lambda>p. p = (a, b) \<or> p = (b, a)) (unordered_pairs targets))"
    by (rule length_filter_le)
  also have "\<dots> \<le> 1"
    using assms by (simp add: unordered_pairs_once)
  finally show ?thesis
    by (simp only: entries_for_length)
qed

lemma entries_for_exactly_one:
  assumes "distinct targets" "a \<in> set targets" "b \<in> set targets" "a \<noteq> b"
    and "0 < co_count sources a b"
  shows "length (entries_for (co_mentions targets sources) a b) = 1"
proof -
  have "filter (\<lambda>p. (p = (a, b) \<or> p = (b, a)) \<and> 0 < co_count sources (fst p) (snd p))
               (unordered_pairs targets)
      = filter (\<lambda>p. p = (a, b) \<or> p = (b, a)) (unordered_pairs targets)"
    using assms(5) co_count_sym [of sources a b] by (intro filter_cong) auto
  then show ?thesis
    using assms by (simp add: entries_for_length unordered_pairs_once)
qed

lemma co_mentions_entry:
  "e \<in> set (co_mentions targets sources) \<Longrightarrow>
   count e = co_count sources (fst (pair e)) (snd (pair e)) \<and> 0 < count e
   \<and> pair e \<in> set (unordered_pairs targets)"
  by (auto simp: co_mentions_def)

lemma reported_count_sym:
  "reported_count out a b = reported_count out b a"
proof -
  have "(\<lambda>e :: CoMentionsSummary. pair e = (a, b) \<or> pair e = (b, a))
      = (\<lambda>e. pair e = (b, a) \<or> pair e = (a, b))"
    by auto
  then show ?thesis
    by (simp add: reported_count_def)
qed

lemma reported_count_value:
  assumes "length (entries_for (co_mentions targets sources) a b) = 1"
  shows "reported_count (co_mentions targets sources) a b = co_count sources a b"
proof -
  let ?out = "co_mentions targets sources"
  let ?P = "\<lambda>e :: CoMentionsSummary. pair e = (a, b) \<or> pair e = (b, a)"
  have "filter ?P ?out \<noteq> []"
    using assms by (auto simp: entries_for_def)
  then have "\<exists>e. e \<in> set ?out \<and> ?P e"
    by (auto simp: filter_empty_conv)
  then have "find ?P ?out \<noteq> None"
    by (simp add: find_None_iff)
  then obtain e where e: "find ?P ?out = Some e"
    by auto
  then have "?P e" "e \<in> set ?out"
    by (auto simp: find_Some_iff in_set_conv_nth)
  then have "count e = co_count sources a b"
    using co_mentions_entry [of e targets sources] co_count_sym [of sources a b] by auto
  with e show ?thesis
    by (simp add: reported_count_def)
qed

lemma co_mentions_sorted: "sorted (rev (map count (co_mentions targets sources)))"
  by (simp add: co_mentions_def rev_map)

text \<open>
  C6. The co-mention count of two targets is the same in both orders, in the counter
  and in the returned list; no unordered pair has more than one entry in the list, a
  pair of targets that appear together in some source has exactly one, with its count;
  and the list is sorted by descending count.
\<close>

theorem co_mentions_spec:
  assumes "distinct targets"
  shows "co_count sources a b = co_count sources b a
       \<and> reported_count (co_mentions targets sources) a b =
           reported_count (co_mentions targets sources) b a
       \<and> length (entries_for (co_mentions targets sources) a b) \<le> 1
       \<and> (a \<in> set targets \<and> b \<in> set targets \<and> a \<noteq> b \<and> 0 < co_count sources a b \<longrightarrow>
            length (entries_for (co_mentions targets sources) a b) = 1
          \<and> reported_count (co_mentions targets sources) a b = co_count sources a b)
       \<and> sorted (rev (map count (co_mentions targets sources)))"
proof -
  have "length (entries_for (co_mentions targets sources) a b) = 1
      \<and> reported_count (co_mentions targets sources) a b = co_count sources a b"
    if "a \<in> set targets" "b \<in> set targets" "a \<noteq> b" "0 < co_count sources a b"
    using assms that entries_for_exactly_one reported_count_value by blast
  then show ?thesis
    using assms co_count_sym reported_count_sym entries_for_le_one co_mentions_sorted
    by blast
qed

theorem co_mentions_spec_witness:
  "distinct [''openai'', ''anthropic'', ''google'']
   \<and> co_mentions [''openai'', ''anthropic'', ''google'']
       [[''openai'', ''google''], [''anthropic'', ''openai'', ''google''], [''google''],
        [''google'', ''openai'']]
     = [\<lparr>pair = (''openai'', ''google''), count = 3\<rparr>,
        \<lparr>pair = (''anthropic'', ''google''), count = 1\<rparr>,
        \<lparr>pair = (''openai'', ''anthropic''), count = 1\<rparr>]
   \<and> reported_count
       (co_mentions [''openai'', ''anthropic'', ''google'']
          [[''openai'', ''google''], [''anthropic'', ''openai'', ''google''], [''google''],
           [''google'', ''openai'']]) ''google'' ''openai'' = 3
   \<and> length (entries_for
       (co_mentions [''openai'', ''anthropic'', ''google'']
          [[''openai'', ''google''], [''anthropic'', ''openai'', ''google''], [''google''],
           [''google'', ''openai'']]) ''google'' ''openai'') = 1"
proof -
  have d: "distinct [''openai'', ''anthropic'', ''google'']"
    by simp
  have cm: "co_mentions [''openai'', ''anthropic'', ''google'']
       [[''openai'', ''google''], [''anthropic'', ''openai'', ''google''], [''google''],
        [''google'', ''openai'']]
     = [\<lparr>pair = (''openai'', ''google''), count = 3\<rparr>,
        \<lparr>pair = (''anthropic'', ''google''), count = 1\<rparr>,
        \<lparr>pair = (''openai'', ''anthropic''), count = 1\<rparr>]"
    by (simp add: co_mentions_def co_count_def)
  show ?thesis
    using d cm
      co_mentions_spec [OF d, of "[[''openai'', ''google''], [''anthropic'', ''openai'', ''google''],
        [''google''], [''google'', ''openai'']]" "''google''" "''openai''"]
    by (simp add: reported_count_def entries_for_def)
qed

end
